theory Spec2Isabelle
  imports Main "HOL-Library.Sublist"
begin

section \<open>Text\<close>

text \<open>
  The program is \<^verbatim>\<open>combine.py\<close>: it pulls one chart specification out of each input
  HTML file with a regular expression and pastes all of them into one dashboard page.

  Python's \<^verbatim>\<open>str\<close> is modelled as \<^typ>\<open>string\<close> holding the UTF-8 bytes of the text (the
  files are read and written with \<^verbatim>\<open>encoding='utf-8'\<close>). The program never measures a
  string and its one pattern is ASCII, so a match on bytes is a match on code points and
  the other way round. Non-ASCII literals of the source are written byte by byte.
\<close>

text \<open>\<^verbatim>\<open>str(n)\<close> for a non-negative integer: the decimal digits, no leading zero.\<close>

fun str_nat :: "nat \<Rightarrow> string" where
  "str_nat n =
     (if n < 10 then [''0123456789'' ! n]
      else str_nat (n div 10) @ [''0123456789'' ! (n mod 10)])"

declare str_nat.simps [simp del]

text \<open>\<^verbatim>\<open>sep.join(parts)\<close>.\<close>

fun join :: "string \<Rightarrow> string list \<Rightarrow> string" where
  "join sep [] = []"
| "join sep [x] = x"
| "join sep (x # y # ys) = x @ sep @ join sep (y # ys)"

section \<open>The spec extractor\<close>

text \<open>
  \<^verbatim>\<open>re.search(r'var spec = ({.*?});', html_content, re.DOTALL)\<close>

  The pattern is the literal \<^verbatim>\<open>var spec = \<close>, then the group: a brace, \<^verbatim>\<open>.*?\<close>, a
  brace, and then a semicolon. So a match at a position is the opening literal
  \<^verbatim>\<open>var spec = {\<close>, a lazily chosen run of any characters (with \<^verbatim>\<open>DOTALL\<close> the dot
  matches newlines too), and the closing literal \<^verbatim>\<open>};\<close>; group 1 is the run between
  them with one brace on each side.

  \<open>lazy_any_until stop s\<close> is \<^verbatim>\<open>.*?\<close> followed by the literal \<open>stop\<close>: the backtracking
  matcher tries the empty run first and lengthens it by one character each time \<open>stop\<close>
  does not follow. \<open>match_here\<close> is one match attempt at the start of \<open>s\<close>, and
  \<open>re_search\<close> tries the start positions from left to right, as \<^verbatim>\<open>re.search\<close> does.
\<close>

fun lazy_any_until :: "string \<Rightarrow> string \<Rightarrow> string option" where
  "lazy_any_until stop [] = (if prefix stop [] then Some [] else None)"
| "lazy_any_until stop (c # cs) =
     (if prefix stop (c # cs) then Some []
      else map_option ((#) c) (lazy_any_until stop cs))"

definition match_here :: "string \<Rightarrow> string \<Rightarrow> string \<Rightarrow> string option" where
  "match_here opn cls s =
     (if prefix opn s then lazy_any_until cls (drop (length opn) s) else None)"

fun re_search :: "string \<Rightarrow> string \<Rightarrow> string \<Rightarrow> string option" where
  "re_search opn cls [] = match_here opn cls []"
| "re_search opn cls (c # cs) =
     (case match_here opn cls (c # cs) of
        Some body \<Rightarrow> Some body
      | None \<Rightarrow> re_search opn cls cs)"

text \<open>
  \<^verbatim>\<open>return spec_match.group(1) if spec_match else '{}'\<close>
\<close>

definition extract_spec :: "string \<Rightarrow> string" where
  "extract_spec html_content =
     (case re_search ''var spec = {'' ''};'' html_content of
        Some body \<Rightarrow> ''{'' @ body @ ''}''
      | None \<Rightarrow> ''{}'')"

section \<open>The world of one run\<close>

text \<open>
  What \<^verbatim>\<open>open(file_path, 'r', encoding='utf-8')\<close> followed by \<^verbatim>\<open>f.read()\<close> does at a
  path: it returns the text, raises \<^verbatim>\<open>FileNotFoundError\<close>, or raises something else
  (\<^verbatim>\<open>PermissionError\<close>, \<^verbatim>\<open>IsADirectoryError\<close>, \<^verbatim>\<open>UnicodeDecodeError\<close>).
\<close>

datatype file_state = Readable string | Missing | Unreadable

text \<open>
  The exceptions that leave \<^verbatim>\<open>merge_html_files\<close>. \<^verbatim>\<open>FileNotFoundError\<close> on an input is
  caught inside and is not one of them.
\<close>

datatype exn = OtherReadError | WriteError

text \<open>
  \<open>files\<close> is the file system as reads see it, \<open>writable\<close> says whether
  \<^verbatim>\<open>open(path, 'w')\<close> succeeds, \<open>stdout\<close> holds the argument of every \<^verbatim>\<open>print\<close> call in
  order, and \<open>heap\<close> holds the list objects of the caller, by address. The program has
  no other state; the block under \<^verbatim>\<open>if __name__ == "__main__"\<close>, which calls the composer
  once with three fixed paths, is not part of the model.
\<close>

record world =
  files :: "string \<Rightarrow> file_state"
  writable :: "string \<Rightarrow> bool"
  stdout :: "string list"
  heap :: "nat \<Rightarrow> string list"

text \<open>\<^verbatim>\<open>print(line)\<close>.\<close>

definition py_print :: "string \<Rightarrow> world \<Rightarrow> world" where
  "py_print line w = w\<lparr>stdout := stdout w @ [line]\<rparr>"

text \<open>
  \<^verbatim>\<open>with open(path, 'w', encoding='utf-8') as f: f.write(content)\<close>: the file then holds
  the content, or the \<^verbatim>\<open>open\<close> raises and nothing is written.
\<close>

definition write_file :: "string \<Rightarrow> string \<Rightarrow> world \<Rightarrow> exn + world" where
  "write_file path content w =
     (if writable w path
      then Inr (w\<lparr>files := (files w)(path := Readable content)\<rparr>)
      else Inl WriteError)"

section \<open>Titles\<close>

definition default_titles :: "string list" where
  "default_titles =
     [[CHR 0xF0, CHR 0x9F, CHR 0x93, CHR 0x8A] @ '' Expenditure and Contribution Analysis'',
      [CHR 0xF0, CHR 0x9F, CHR 0x97, CHR 0xBA, CHR 0xEF, CHR 0xB8, CHR 0x8F] @
        '' Geographic Distribution by County'',
      [CHR 0xF0, CHR 0x9F, CHR 0x93, CHR 0x88] @ '' Additional Analysis'']"

text \<open>
  The local name \<^verbatim>\<open>titles\<close> is bound either to the list object the caller passed
  (an address in the heap) or, when the argument is \<^verbatim>\<open>None\<close>, to a list created inside
  the call, which nothing outside can reach.
\<close>

datatype titles_var = Fresh "string list" | Caller nat

fun get_titles :: "titles_var \<Rightarrow> world \<Rightarrow> string list" where
  "get_titles (Fresh ts) w = ts"
| "get_titles (Caller r) w = heap w r"

text \<open>\<^verbatim>\<open>titles.append(x)\<close>: the list object is changed in place.\<close>

fun titles_append :: "string \<Rightarrow> titles_var \<Rightarrow> world \<Rightarrow> titles_var \<times> world" where
  "titles_append x (Fresh ts) w = (Fresh (ts @ [x]), w)"
| "titles_append x (Caller r) w = (Caller r, w\<lparr>heap := (heap w)(r := heap w r @ [x])\<rparr>)"

text \<open>
  \<^verbatim>\<open>while len(titles) < len(file_paths): titles.append(f"... Visualization {len(titles) + 1}")\<close>

  \<open>visualization_title\<close> is the f-string. Its first four bytes are U+1F4CA (a bar chart
  emoji), which the source has in the literal.
\<close>

definition visualization_title :: "nat \<Rightarrow> string" where
  "visualization_title n =
     [CHR 0xF0, CHR 0x9F, CHR 0x93, CHR 0x8A] @ '' Visualization '' @ str_nat n"

function pad_titles :: "nat \<Rightarrow> titles_var \<Rightarrow> world \<Rightarrow> titles_var \<times> world" where
  "pad_titles n titles w =
     (if length (get_titles titles w) < n
      then (case titles_append (visualization_title (length (get_titles titles w) + 1))
                   titles w of
              (titles', w') \<Rightarrow> pad_titles n titles' w')
      else (titles, w))"
  by pat_completeness auto
termination
  apply (relation "measure (\<lambda>(n, titles, w). n - length (get_titles titles w))")
   apply simp
  subgoal for n titles w
    by (cases titles) auto
  done

declare pad_titles.simps [simp del]

section \<open>Reading the documents\<close>

text \<open>
  The two status lines of the read loop, as the f-strings build them: U+2713 and the
  Chinese for "file read", the 1-based position and the path; U+2717 and the Chinese for
  "warning: file not found", and the path.
\<close>

definition status_read :: "nat \<Rightarrow> string \<Rightarrow> string" where
  "status_read i file_path =
     [CHR 0xE2, CHR 0x9C, CHR 0x93] @ '' '' @
     [CHR 0xE5, CHR 0xB7, CHR 0xB2, CHR 0xE8, CHR 0xAF, CHR 0xBB, CHR 0xE5, CHR 0x8F, CHR 0x96,
      CHR 0xE6, CHR 0x96, CHR 0x87, CHR 0xE4, CHR 0xBB, CHR 0xB6] @
     '' '' @ str_nat (i + 1) @ '': '' @ file_path"

definition status_missing :: "string \<Rightarrow> string" where
  "status_missing file_path =
     [CHR 0xE2, CHR 0x9C, CHR 0x97] @ '' '' @
     [CHR 0xE8, CHR 0xAD, CHR 0xA6, CHR 0xE5, CHR 0x91, CHR 0x8A] @ '': '' @
     [CHR 0xE6, CHR 0x89, CHR 0xBE, CHR 0xE4, CHR 0xB8, CHR 0x8D, CHR 0xE5, CHR 0x88, CHR 0xB0,
      CHR 0xE6, CHR 0x96, CHR 0x87, CHR 0xE4, CHR 0xBB, CHR 0xB6] @
     '' '' @ file_path"

text \<open>
  One round of \<^verbatim>\<open>for i, file_path in enumerate(file_paths)\<close>: the \<^verbatim>\<open>try\<close> block and its
  one handler. The result is the specification that the round appends to \<^verbatim>\<open>specs\<close>. An
  exception other than \<^verbatim>\<open>FileNotFoundError\<close> is not caught and leaves the function.
\<close>

definition read_document :: "nat \<Rightarrow> string \<Rightarrow> world \<Rightarrow> (exn + string) \<times> world" where
  "read_document i file_path w =
     (case files w file_path of
        Readable html_content \<Rightarrow>
          (Inr (extract_spec html_content), py_print (status_read i file_path) w)
      | Missing \<Rightarrow> (Inr ''{}'', py_print (status_missing file_path) w)
      | Unreadable \<Rightarrow> (Inl OtherReadError, w))"

text \<open>The loop from index \<open>i\<close> on, with the list \<^verbatim>\<open>specs\<close> built so far.\<close>

fun read_loop ::
    "nat \<Rightarrow> string list \<Rightarrow> string list \<Rightarrow> world \<Rightarrow> (exn + string list) \<times> world" where
  "read_loop i [] specs w = (Inr specs, w)"
| "read_loop i (file_path # rest) specs w =
     (case read_document i file_path w of
        (Inl e, w') \<Rightarrow> (Inl e, w')
      | (Inr spec, w') \<Rightarrow> read_loop (i + 1) rest (specs @ [spec]) w')"

section \<open>The generated fragments\<close>

text \<open>
  The f-strings of the three loops and of the two list comprehensions, with the loop
  variable \<open>i\<close> as the source has it (0-based in the loops, so the text carries \<open>i + 1\<close>).
  The Chinese comments read "visualization number ..." and "render chart number ...".
\<close>

definition vis_div :: "nat \<Rightarrow> string \<Rightarrow> string" where
  \<open>vis_div i title =
     ''\<newline>'' @
     ''    <!-- '' @ [CHR 0xE7, CHR 0xAC, CHR 0xAC] @ str_nat (i + 1) @
     [CHR 0xE4, CHR 0xB8, CHR 0xAA, CHR 0xE5, CHR 0x8F, CHR 0xAF, CHR 0xE8, CHR 0xA7, CHR 0x86,
      CHR 0xE5, CHR 0x8C, CHR 0x96] @ '' -->\<newline>'' @
     ''    <div class="visualization">\<newline>'' @
     ''      <div class="vis-title">'' @ title @ ''</div>\<newline>'' @
     ''      <div id="vis'' @ str_nat (i + 1) @ ''"></div>\<newline>'' @
     ''    </div>\<newline>'' @
     ''    ''\<close>

definition spec_declaration :: "nat \<Rightarrow> string \<Rightarrow> string" where
  \<open>spec_declaration i spec =
     ''      var spec'' @ str_nat (i + 1) @ '' = '' @ spec @ '';\<newline>''\<close>

definition render_call :: "nat \<Rightarrow> string" where
  \<open>render_call i =
     ''\<newline>'' @
     ''      // '' @
     [CHR 0xE6, CHR 0xB8, CHR 0xB2, CHR 0xE6, CHR 0x9F, CHR 0x93, CHR 0xE7, CHR 0xAC, CHR 0xAC] @
     str_nat (i + 1) @
     [CHR 0xE4, CHR 0xB8, CHR 0xAA, CHR 0xE5, CHR 0x9B, CHR 0xBE, CHR 0xE8, CHR 0xA1, CHR 0xA8] @
     ''\<newline>'' @
     ''      const el'' @ str_nat (i + 1) @
     '' = document.getElementById('vis'' @ str_nat (i + 1) @ [CHR 0x27] @ '');\<newline>'' @
     ''      vegaEmbed("#vis'' @ str_nat (i + 1) @ ''", spec'' @ str_nat (i + 1) @
     '', embedOpt)\<newline>'' @
     ''        .catch(error => showError(el'' @ str_nat (i + 1) @ '', error));\<newline>'' @
     ''      ''\<close>

definition style_selector :: "nat \<Rightarrow> string" where
  \<open>style_selector i = ''#vis'' @ str_nat (i + 1) @ ''.vega-embed''\<close>

definition details_selector :: "nat \<Rightarrow> string" where
  \<open>details_selector i =
     ''#vis'' @ str_nat (i + 1) @ ''.vega-embed details,\<newline>'' @
     ''    #vis'' @ str_nat (i + 1) @ ''.vega-embed details summary''\<close>

text \<open>
  Each fragment is built as the source builds it: an empty string and one \<^verbatim>\<open>+=\<close> per
  round of a loop over \<^verbatim>\<open>enumerate(...)\<close> or \<^verbatim>\<open>range(len(specs))\<close>; the two selector lists
  are comprehensions over \<^verbatim>\<open>range(1, len(specs) + 1)\<close>, joined with a comma and a space.
\<close>

definition vis_divs :: "string list \<Rightarrow> string" where
  "vis_divs shown_titles =
     foldl (\<lambda>acc (i, title). acc @ vis_div i title) [] (enumerate 0 shown_titles)"

definition spec_declarations :: "string list \<Rightarrow> string" where
  "spec_declarations specs =
     foldl (\<lambda>acc (i, spec). acc @ spec_declaration i spec) [] (enumerate 0 specs)"

definition render_code :: "string list \<Rightarrow> string" where
  "render_code specs = foldl (\<lambda>acc i. acc @ render_call i) [] [0..<length specs]"

definition vega_embed_styles :: "string list \<Rightarrow> string" where
  "vega_embed_styles specs = join '', '' (map style_selector [1..<length specs + 1])"

definition vega_embed_details :: "string list \<Rightarrow> string" where
  "vega_embed_details specs = join '', '' (map details_selector [1..<length specs + 1])"

section \<open>The page template\<close>

text \<open>
  The constant runs of the f-string \<^verbatim>\<open>merged_html\<close>, in order, cut where a fragment is
  put in. A doubled brace of the f-string is one brace of the text.
\<close>

definition html_head :: string where
  \<open>html_head =
     ''<!DOCTYPE html>\<newline>'' @
     ''<html>\<newline>'' @
     ''<head>\<newline>'' @
     ''  <meta charset="UTF-8">\<newline>'' @
     ''  <title>Michigan Political Finance Dashboard</title>\<newline>'' @
     ''  <style>\<newline>'' @
     ''    body {\<newline>'' @
     ''      font-family: Arial, sans-serif;\<newline>'' @
     ''      margin: 0;\<newline>'' @
     ''      padding: 20px;\<newline>'' @
     ''      background-color: #f5f5f5;\<newline>'' @
     ''    }\<newline>'' @
     ''    \<newline>'' @
     ''    .container {\<newline>'' @
     ''      max-width: 1400px;\<newline>'' @
     ''      margin: 0 auto;\<newline>'' @
     ''      background-color: white;\<newline>'' @
     ''      padding: 20px;\<newline>'' @
     ''      box-shadow: 0 2px 4px rgba(0,0,0,0.1);\<newline>'' @
     ''    }\<newline>'' @
     ''    \<newline>'' @
     ''    h1 {\<newline>'' @
     ''      text-align: center;\<newline>'' @
     ''      color: #333;\<newline>'' @
     ''      margin-bottom: 10px;\<newline>'' @
     ''      font-size: 28px;\<newline>'' @
     ''    }\<newline>'' @
     ''    \<newline>'' @
     ''    .subtitle {\<newline>'' @
     ''      text-align: center;\<newline>'' @
     ''      color: #666;\<newline>'' @
     ''      margin-bottom: 30px;\<newline>'' @
     ''      font-size: 14px;\<newline>'' @
     ''    }\<newline>'' @
     ''    \<newline>'' @
     ''    .visualization {\<newline>'' @
     ''      margin-bottom: 40px;\<newline>'' @
     ''      border: 1px solid #ddd;\<newline>'' @
     ''      padding: 20px;\<newline>'' @
     ''      border-radius: 5px;\<newline>'' @
     ''      background-color: #fafafa;\<newline>'' @
     ''    }\<newline>'' @
     ''    \<newline>'' @
     ''    .visualization:last-child {\<newline>'' @
     ''      margin-bottom: 0;\<newline>'' @
     ''    }\<newline>'' @
     ''    \<newline>'' @
     ''    .vis-title {\<newline>'' @
     ''      font-size: 20px;\<newline>'' @
     ''      font-weight: bold;\<newline>'' @
     ''      color: #555;\<newline>'' @
     ''      margin-bottom: 15px;\<newline>'' @
     ''      padding-bottom: 10px;\<newline>'' @
     ''      border-bottom: 2px solid #007bff;\<newline>'' @
     ''    }\<newline>'' @
     ''\<newline>'' @
     ''    ''\<close>

definition html_style_mid :: string where
  \<open>html_style_mid =
     '' {\<newline>'' @
     ''      width: 100%;\<newline>'' @
     ''      display: flex;\<newline>'' @
     ''    }\<newline>'' @
     ''\<newline>'' @
     ''    ''\<close>

definition html_body_open :: string where
  \<open>html_body_open =
     '' {\<newline>'' @
     ''      position: relative;\<newline>'' @
     ''    }\<newline>'' @
     ''    \<newline>'' @
     ''    .footer {\<newline>'' @
     ''      text-align: center;\<newline>'' @
     ''      margin-top: 30px;\<newline>'' @
     ''      padding-top: 20px;\<newline>'' @
     ''      border-top: 1px solid #ddd;\<newline>'' @
     ''      color: #999;\<newline>'' @
     ''      font-size: 12px;\<newline>'' @
     ''    }\<newline>'' @
     ''  </style>\<newline>'' @
     ''  <script type="text/javascript" src="https://cdn.jsdelivr.net/npm/vega@5"></script>\<newline>'' @
     ''  <script type="text/javascript" src="https://cdn.jsdelivr.net/npm/vega-lite@5.20.1"></script>\<newline>'' @
     ''  <script type="text/javascript" src="https://cdn.jsdelivr.net/npm/vega-embed@6"></script>\<newline>'' @
     ''</head>\<newline>'' @
     ''<body>\<newline>'' @
     ''  <div class="container">\<newline>'' @
     ''    <h1>Michigan Political Finance Analysis Dashboard</h1>\<newline>'' @
     ''    <div class="subtitle">Comprehensive visualization of political finance data</div>\<newline>'' @
     ''    ''\<close>

definition html_script_open :: string where
  \<open>html_script_open =
     ''\<newline>'' @
     ''    <div class="footer">\<newline>'' @
     ''      Generated with Vega-Lite | Data visualization dashboard\<newline>'' @
     ''    </div>\<newline>'' @
     ''  </div>\<newline>'' @
     ''\<newline>'' @
     ''  <script>\<newline>'' @
     ''    (function(vegaEmbed) {\<newline>'' @
     ''      // '' @
     [CHR 0xE5, CHR 0x9B, CHR 0xBE, CHR 0xE8, CHR 0xA1, CHR 0xA8, CHR 0xE8, CHR 0xA7, CHR 0x84, CHR 0xE8, CHR 0x8C, CHR 0x83] @
     ''\<newline>''\<close>

definition html_script_mid :: string where
  \<open>html_script_mid =
     ''\<newline>'' @
     ''      \<newline>'' @
     ''      var embedOpt = {"mode": "vega-lite"};\<newline>'' @
     ''\<newline>'' @
     ''      function showError(el, error){\<newline>'' @
     ''          el.innerHTML = ('<div style="color:red;">'' @
     [CHR 0x27] @
     ''\<newline>'' @
     ''                          + '<p>JavaScript Error: ' + error.message + '</p>'' @
     [CHR 0x27] @
     ''\<newline>'' @
     ''                          + "<p>This usually means there's a typo in your chart specification. "\<newline>'' @
     ''                          + "See the javascript console for the full traceback.</p>"\<newline>'' @
     ''                          + '</div>');\<newline>'' @
     ''          throw error;\<newline>'' @
     ''      }\<newline>'' @
     ''      ''\<close>

definition html_tail :: string where
  \<open>html_tail =
     ''\<newline>'' @
     ''    })(vegaEmbed);\<newline>'' @
     ''\<newline>'' @
     ''  </script>\<newline>'' @
     ''</body>\<newline>'' @
     ''</html>''\<close>

definition merged_html :: "string list \<Rightarrow> string list \<Rightarrow> string" where
  "merged_html shown_titles specs =
     html_head @ vega_embed_styles specs @
     html_style_mid @ vega_embed_details specs @
     html_body_open @ vis_divs shown_titles @
     html_script_open @ spec_declarations specs @
     html_script_mid @ render_code specs @
     html_tail"

section \<open>The composer\<close>

text \<open>
  The summary line: a newline, U+2705, the Chinese for "merged", the count, and the
  Chinese for "HTML files into", then the path.
\<close>

definition summary_line :: "nat \<Rightarrow> string \<Rightarrow> string" where
  "summary_line n output_path =
     ''\<newline>'' @ [CHR 0xE2, CHR 0x9C, CHR 0x85] @ '' '' @
     [CHR 0xE6, CHR 0x88, CHR 0x90, CHR 0xE5, CHR 0x8A, CHR 0x9F, CHR 0xE5, CHR 0x90, CHR 0x88,
      CHR 0xE5, CHR 0xB9, CHR 0xB6] @
     '' '' @ str_nat n @ '' '' @
     [CHR 0xE4, CHR 0xB8, CHR 0xAA] @ ''HTML'' @
     [CHR 0xE6, CHR 0x96, CHR 0x87, CHR 0xE4, CHR 0xBB, CHR 0xB6, CHR 0xE5, CHR 0x88, CHR 0xB0] @
     '': '' @ output_path"

text \<open>
  \<^verbatim>\<open>merge_html_files(file_paths, output_path, titles=None)\<close>. The argument \<open>titles\<close> is
  \<open>None\<close> or the address of the caller's list. The steps are those of the source:
  default titles, padding, the read loop, the fragments, the page, the write, and the
  summary line. The write happens only once the whole page is built.
\<close>

definition merge_html_files ::
    "string list \<Rightarrow> string \<Rightarrow> nat option \<Rightarrow> world \<Rightarrow> (exn + unit) \<times> world" where
  "merge_html_files file_paths output_path titles w =
     (case pad_titles (length file_paths)
             (case titles of None \<Rightarrow> Fresh default_titles | Some r \<Rightarrow> Caller r) w of
        (titles1, w1) \<Rightarrow>
          (case read_loop 0 file_paths [] w1 of
             (Inl e, w2) \<Rightarrow> (Inl e, w2)
           | (Inr specs, w2) \<Rightarrow>
               (case write_file output_path
                       (merged_html (take (length file_paths) (get_titles titles1 w2)) specs)
                       w2 of
                  Inl e \<Rightarrow> (Inl e, w2)
                | Inr w3 \<Rightarrow>
                    (Inr (), py_print (summary_line (length file_paths) output_path) w3))))"

section \<open>Closed forms\<close>

text \<open>
  What the loops compute, written without the loops. These are not part of the program;
  the lemmas \<open>pad_titles_eq\<close>, \<open>read_loop_ok\<close> and \<open>merge_html_files_ok\<close> below prove
  that the program computes them, and the statements use them to name the lists a run
  works with.

  \<open>padded_titles n ts\<close> is the list that the padding loop leaves, \<open>initial_titles\<close> the
  list the name \<^verbatim>\<open>titles\<close> starts with, and \<open>effective_titles\<close> the slice
  \<^verbatim>\<open>titles[:len(file_paths)]\<close> that the loop over the titles walks.
  \<open>recorded_spec w file_path\<close> is the specification a round of the read loop appends for a
  path and \<open>status_line w i file_path\<close> the line it prints; for an unreadable path, where
  the round raises, both are empty.
\<close>

definition padded_titles :: "nat \<Rightarrow> string list \<Rightarrow> string list" where
  "padded_titles n ts = ts @ map (\<lambda>j. visualization_title (j + 1)) [length ts..<n]"

definition initial_titles :: "nat option \<Rightarrow> world \<Rightarrow> string list" where
  "initial_titles titles w = (case titles of None \<Rightarrow> default_titles | Some r \<Rightarrow> heap w r)"

definition effective_titles :: "string list \<Rightarrow> nat option \<Rightarrow> world \<Rightarrow> string list" where
  "effective_titles file_paths titles w =
     take (length file_paths) (padded_titles (length file_paths) (initial_titles titles w))"

definition recorded_spec :: "world \<Rightarrow> string \<Rightarrow> string" where
  "recorded_spec w file_path =
     (case files w file_path of
        Readable html_content \<Rightarrow> extract_spec html_content
      | Missing \<Rightarrow> ''{}''
      | Unreadable \<Rightarrow> [])"

definition status_line :: "world \<Rightarrow> nat \<Rightarrow> string \<Rightarrow> string" where
  "status_line w i file_path =
     (case files w file_path of
        Readable html_content \<Rightarrow> status_read i file_path
      | Missing \<Rightarrow> status_missing file_path
      | Unreadable \<Rightarrow> [])"

section \<open>An example world\<close>

text \<open>
  A small file system for the concrete runs below: two charts, a page without a chart,
  a file that cannot be read, and nothing else. Every path can be written, nothing has
  been printed, and every list of the caller is empty.
\<close>

definition world0 :: world where
  \<open>world0 =
     \<lparr>files = (\<lambda>_. Missing)
        (''a.html'' := Readable ''<script>var spec = {"a": 1};</script>'',
         ''b.html'' := Readable ''<script>var spec = {"b": [1,2,3]};</script>'',
         ''plain.html'' := Readable ''<html></html>'',
         ''locked.html'' := Unreadable),
      writable = (\<lambda>_. True), stdout = [], heap = (\<lambda>_. [])\<rparr>\<close>

section \<open>Properties of the extractor\<close>

text \<open>
  The facts below are about the matcher for any non-empty opening and closing literal.
  "First" is read as the regular expression engine reads it: the leftmost start, and from
  there the shortest run. \<open>\<not> sublist opn (pre @ butlast opn)\<close> says that no occurrence of
  \<open>opn\<close> starts inside \<open>pre\<close>; \<open>\<not> sublist cls (body @ butlast cls)\<close> says that no
  occurrence of \<open>cls\<close> starts inside \<open>body\<close>.
\<close>

lemma prefix_short:
  "prefix xs (ys @ zs) \<Longrightarrow> length xs \<le> length ys \<Longrightarrow> prefix xs ys"
  by (auto simp: prefix_append)

lemma not_sublist_butlast:
  assumes "stop \<noteq> []"
  shows "\<not> sublist stop (butlast stop)"
proof
  assume "sublist stop (butlast stop)"
  then have "length stop \<le> length (butlast stop)"
    by (rule sublist_length_le)
  moreover have "length (butlast stop) = length stop - 1"
    by (rule length_butlast)
  moreover have "0 < length stop" using assms by simp
  ultimately show False by linarith
qed

lemma lazy_sound:
  assumes "stop \<noteq> []"
  shows "lazy_any_until stop s = Some body \<Longrightarrow>
     (\<exists>post. s = body @ stop @ post) \<and> \<not> sublist stop (body @ butlast stop)"
proof (induction s arbitrary: body)
  case Nil
  with assms show ?case by (simp split: if_splits)
next
  case (Cons c cs)
  show ?case
  proof (cases "prefix stop (c # cs)")
    case True
    with Cons.prems have "body = []" by simp
    with True assms show ?thesis
      by (auto simp: prefix_def not_sublist_butlast)
  next
    case False
    with Cons.prems obtain b where b: "lazy_any_until stop cs = Some b" "body = c # b"
      by auto
    from Cons.IH[OF b(1)] obtain post where
      p: "cs = b @ stop @ post" "\<not> sublist stop (b @ butlast stop)" by blast
    have "\<not> prefix stop (c # b @ butlast stop)"
    proof
      assume "prefix stop (c # b @ butlast stop)"
      then have "prefix stop ((c # b @ butlast stop) @ [last stop] @ post)"
        by (rule prefix_prefix)
      moreover have "(c # b @ butlast stop) @ [last stop] @ post = c # cs"
        using assms p(1) by simp
      ultimately show False using False by simp
    qed
    with p b(2) show ?thesis
      by (auto simp: sublist_Cons_right)
  qed
qed

lemma lazy_complete:
  "stop \<noteq> [] \<Longrightarrow> lazy_any_until stop (body @ stop @ post) \<noteq> None"
proof (induction body)
  case Nil
  then show ?case by (cases stop) auto
next
  case (Cons c body)
  then show ?case by auto
qed

lemma lazy_first:
  assumes "stop \<noteq> []" and "\<not> sublist stop (body @ butlast stop)"
  shows "lazy_any_until stop (body @ stop @ post) = Some body"
  using assms(2)
proof (induction body)
  case Nil
  with assms(1) show ?case by (cases stop) auto
next
  case (Cons c body)
  from Cons.prems have np: "\<not> prefix stop (c # body @ butlast stop)"
    and ns: "\<not> sublist stop (body @ butlast stop)"
    by (auto simp: sublist_Cons_right)
  have "\<not> prefix stop (c # body @ stop @ post)"
  proof
    assume "prefix stop (c # body @ stop @ post)"
    moreover have "c # body @ stop @ post = (c # body @ butlast stop) @ [last stop] @ post"
      using append_butlast_last_id[OF assms(1)] by (metis append.assoc append_Cons)
    ultimately have "prefix stop ((c # body @ butlast stop) @ [last stop] @ post)"
      by simp
    then have "prefix stop (c # body @ butlast stop)"
      by (rule prefix_short) simp
    with np show False by contradiction
  qed
  with Cons.IH[OF ns] show ?case by simp
qed

lemma match_here_sound:
  assumes "cls \<noteq> []" and "match_here opn cls s = Some body"
  shows "(\<exists>post. s = opn @ body @ cls @ post) \<and> \<not> sublist cls (body @ butlast cls)"
proof -
  from assms(2) have p: "prefix opn s"
    and l: "lazy_any_until cls (drop (length opn) s) = Some body"
    by (auto simp: match_here_def split: if_splits)
  from p obtain r where r: "s = opn @ r" by (auto simp: prefix_def)
  with l have "lazy_any_until cls r = Some body" by simp
  from lazy_sound[OF assms(1) this] r show ?thesis by auto
qed

lemma match_here_complete:
  assumes "cls \<noteq> []" and "prefix opn s" and "s = pre @ opn @ body @ cls @ post"
  shows "match_here opn cls s \<noteq> None"
proof -
  have e: "drop (length opn) s = drop (length opn) (pre @ opn @ body) @ cls @ post"
    using assms(3) by simp
  have "lazy_any_until cls (drop (length opn) s) \<noteq> None"
    unfolding e by (rule lazy_complete[OF assms(1)])
  then show ?thesis
    using assms(2) by (simp add: match_here_def)
qed

lemma re_search_sound:
  assumes "opn \<noteq> []" and "cls \<noteq> []"
  shows "re_search opn cls s = Some body \<Longrightarrow>
     \<exists>pre post. s = pre @ opn @ body @ cls @ post
        \<and> \<not> sublist opn (pre @ butlast opn)
        \<and> \<not> sublist cls (body @ butlast cls)"
proof (induction s)
  case Nil
  then have "match_here opn cls [] = Some body" by simp
  from match_here_sound[OF assms(2) this] assms(2) show ?case by simp
next
  case (Cons c cs)
  show ?case
  proof (cases "match_here opn cls (c # cs)")
    case (Some b)
    with Cons.prems have "match_here opn cls (c # cs) = Some body" by simp
    from match_here_sound[OF assms(2) this] obtain post where
      "c # cs = [] @ opn @ body @ cls @ post" "\<not> sublist cls (body @ butlast cls)"
      by auto
    moreover have "\<not> sublist opn ([] @ butlast opn)"
      using not_sublist_butlast[OF assms(1)] by simp
    ultimately show ?thesis by blast
  next
    case None
    with Cons.prems have "re_search opn cls cs = Some body" by simp
    from Cons.IH[OF this] obtain pre post where
      d: "cs = pre @ opn @ body @ cls @ post"
      and n1: "\<not> sublist opn (pre @ butlast opn)"
      and n2: "\<not> sublist cls (body @ butlast cls)" by blast
    have np: "\<not> prefix opn (c # cs)"
    proof
      assume "prefix opn (c # cs)"
      moreover have "c # cs = (c # pre) @ opn @ body @ cls @ post" using d by simp
      ultimately have "match_here opn cls (c # cs) \<noteq> None"
        by (rule match_here_complete[OF assms(2)])
      with None show False by contradiction
    qed
    have "\<not> prefix opn (c # pre @ butlast opn)"
    proof
      assume "prefix opn (c # pre @ butlast opn)"
      then have "prefix opn ((c # pre @ butlast opn) @ [last opn] @ body @ cls @ post)"
        by (rule prefix_prefix)
      moreover have "(c # pre @ butlast opn) @ [last opn] @ body @ cls @ post = c # cs"
        using d assms(1) by simp
      ultimately show False using np by simp
    qed
    with n1 have "\<not> sublist opn ((c # pre) @ butlast opn)"
      by (simp add: sublist_Cons_right)
    moreover have "c # cs = (c # pre) @ opn @ body @ cls @ post" using d by simp
    ultimately show ?thesis using n2 by blast
  qed
qed

lemma re_search_complete:
  assumes "cls \<noteq> []"
  shows "re_search opn cls (pre @ opn @ body @ cls @ post) \<noteq> None"
proof (induction pre)
  case Nil
  have "match_here opn cls (opn @ body @ cls @ post) \<noteq> None"
    by (rule match_here_complete[OF assms, of _ _ "[]" body post]) simp_all
  then show ?case
    by (cases "opn @ body @ cls @ post") (auto split: option.splits)
next
  case (Cons c pre)
  then show ?case by (auto split: option.splits)
qed

lemma re_search_first:
  assumes "opn \<noteq> []" and "cls \<noteq> []"
    and "\<not> sublist cls (body @ butlast cls)"
  shows "\<not> sublist opn (pre @ butlast opn) \<Longrightarrow>
     re_search opn cls (pre @ opn @ body @ cls @ post) = Some body"
proof (induction pre)
  case Nil
  have "match_here opn cls (opn @ body @ cls @ post) = Some body"
    using lazy_first[OF assms(2,3)] by (simp add: match_here_def)
  then show ?case
    by (cases "opn @ body @ cls @ post") (auto split: option.splits)
next
  case (Cons c pre)
  from Cons.prems have np: "\<not> prefix opn (c # pre @ butlast opn)"
    and ns: "\<not> sublist opn (pre @ butlast opn)"
    by (auto simp: sublist_Cons_right)
  have "\<not> prefix opn (c # pre @ opn @ body @ cls @ post)"
  proof
    assume "prefix opn (c # pre @ opn @ body @ cls @ post)"
    moreover have "c # pre @ opn @ body @ cls @ post
        = (c # pre @ butlast opn) @ [last opn] @ body @ cls @ post"
      using append_butlast_last_id[OF assms(1)] by (metis append.assoc append_Cons)
    ultimately have "prefix opn ((c # pre @ butlast opn) @ [last opn] @ body @ cls @ post)"
      by simp
    then have "prefix opn (c # pre @ butlast opn)"
      by (rule prefix_short) simp
    with np show False by contradiction
  qed
  then have "match_here opn cls (c # pre @ opn @ body @ cls @ post) = None"
    by (simp add: match_here_def)
  with Cons.IH[OF ns] show ?case by simp
qed


lemma butlast_opn: "butlast ''var spec = {'' = ''var spec = ''" by simp
lemma butlast_cls: "butlast ''};'' = ''}''" by simp

lemma extract_spec_first:
  assumes "\<not> sublist ''var spec = {'' (pre @ ''var spec = '')"
    and "\<not> sublist ''};'' (body @ ''}'')"
  shows "extract_spec (pre @ ''var spec = {'' @ body @ ''};'' @ post) = ''{'' @ body @ ''}''"
proof -
  have "re_search ''var spec = {'' ''};'' (pre @ ''var spec = {'' @ body @ ''};'' @ post)
      = Some body"
    by (rule re_search_first) (use assms in \<open>simp_all only: butlast_opn butlast_cls\<close>, simp_all)
  then show ?thesis by (simp add: extract_spec_def)
qed

lemma extract_spec_no_pattern:
  assumes "\<not> (\<exists>pre body post. text = pre @ ''var spec = {'' @ body @ ''};'' @ post)"
  shows "extract_spec text = ''{}''"
proof (cases "re_search ''var spec = {'' ''};'' text")
  case None
  then show ?thesis by (simp add: extract_spec_def)
next
  case (Some b)
  have "\<exists>pre' post'. text = pre' @ ''var spec = {'' @ b @ ''};'' @ post'
        \<and> \<not> sublist ''var spec = {'' (pre' @ butlast ''var spec = {'')
        \<and> \<not> sublist ''};'' (b @ butlast ''};'')"
    by (rule re_search_sound[OF _ _ Some]) simp_all
  with assms show ?thesis by blast
qed

lemma extract_spec_nonempty: "extract_spec text \<noteq> []"
  by (simp add: extract_spec_def split: option.splits)

text \<open>
  Claim C1. For every text that contains the assignment pattern
  \<^verbatim>\<open>var spec = {\<close> ... \<^verbatim>\<open>};\<close> anywhere, the text splits at the first occurrence of the
  pattern (no \<^verbatim>\<open>var spec = {\<close> starts earlier, and no \<^verbatim>\<open>};\<close> starts inside the captured
  run), and \<open>extract_spec\<close> returns exactly the characters of that occurrence from its
  opening brace to its closing brace, unchanged.
\<close>

theorem extract_returns_first_capture:
  assumes "text = pre @ ''var spec = {'' @ body @ ''};'' @ post"
  shows "\<exists>pre' body' post'.
           text = pre' @ ''var spec = {'' @ body' @ ''};'' @ post'
         \<and> \<not> sublist ''var spec = {'' (pre' @ ''var spec = '')
         \<and> \<not> sublist ''};'' (body' @ ''}'')
         \<and> extract_spec text = ''{'' @ body' @ ''}''"
proof -
  have "re_search ''var spec = {'' ''};'' text \<noteq> None"
    unfolding assms by (rule re_search_complete) simp
  then obtain b where b: "re_search ''var spec = {'' ''};'' text = Some b" by auto
  have "\<exists>pre' post'. text = pre' @ ''var spec = {'' @ b @ ''};'' @ post'
        \<and> \<not> sublist ''var spec = {'' (pre' @ butlast ''var spec = {'')
        \<and> \<not> sublist ''};'' (b @ butlast ''};'')"
    by (rule re_search_sound[OF _ _ b]) simp_all
  then obtain pre' post' where "text = pre' @ ''var spec = {'' @ b @ ''};'' @ post'"
    and "\<not> sublist ''var spec = {'' (pre' @ ''var spec = '')"
    and "\<not> sublist ''};'' (b @ ''}'')"
    unfolding butlast_opn butlast_cls by blast
  moreover have "extract_spec text = ''{'' @ b @ ''}''"
    using b by (simp add: extract_spec_def)
  ultimately show ?thesis by blast
qed

theorem extract_returns_first_capture_witness:
  \<open>\<exists>pre' body' post'.
      ''<script>var spec = {"a": 1};</script>'' = pre' @ ''var spec = {'' @ body' @ ''};'' @ post'
    \<and> \<not> sublist ''var spec = {'' (pre' @ ''var spec = '')
    \<and> \<not> sublist ''};'' (body' @ ''}'')
    \<and> extract_spec ''<script>var spec = {"a": 1};</script>'' = ''{'' @ body' @ ''}''\<close>
  using extract_returns_first_capture
    [of \<open>''<script>var spec = {"a": 1};</script>''\<close> \<open>''<script>''\<close> \<open>''"a": 1''\<close> \<open>''</script>''\<close>]
  by simp


text \<open>
  Claim C6. The match is lazy: when the object literal itself contains \<^verbatim>\<open>};\<close> before its
  real end (the literal is a brace, \<open>a\<close>, \<^verbatim>\<open>};\<close>, \<open>b\<close>, a brace, and the first \<^verbatim>\<open>};\<close> is
  the one after \<open>a\<close>), \<open>extract_spec\<close> returns only the part up to that first \<^verbatim>\<open>};\<close>,
  which is a proper prefix of the literal. The witness has the \<^verbatim>\<open>};\<close> inside a string.
\<close>

theorem extract_stops_at_first_close:
  assumes "\<not> sublist ''};'' (a @ ''}'')"
  shows "extract_spec (''var spec = {'' @ a @ ''};'' @ b @ ''};'') = ''{'' @ a @ ''}''
       \<and> strict_prefix (''{'' @ a @ ''}'') (''{'' @ a @ ''};'' @ b @ ''}'')"
proof -
  have "\<not> sublist ''var spec = {'' ([] @ ''var spec = '')"
    using not_sublist_butlast[of "''var spec = {''"] by simp
  from extract_spec_first[OF this assms, of "b @ ''};''"]
  show ?thesis by (simp add: strict_prefix_def)
qed

theorem extract_stops_at_first_close_witness:
  \<open>extract_spec ''var spec = {"t": "a};b"};'' = ''{"t": "a}''
   \<and> strict_prefix ''{"t": "a}'' ''{"t": "a};b"}''\<close>
  using extract_stops_at_first_close [of \<open>''"t": "a''\<close> \<open>''b"''\<close>]
  by (simp add: sublist_Cons_right)

section \<open>Properties of the composer\<close>

lemma padded_titles_step:
  "length ts < n \<Longrightarrow>
     padded_titles n (ts @ [visualization_title (Suc (length ts))]) = padded_titles n ts"
  by (simp add: padded_titles_def upt_conv_Cons)

lemma padded_titles_done: "\<not> length ts < n \<Longrightarrow> padded_titles n ts = ts"
  by (simp add: padded_titles_def)

lemma length_padded_titles: "length (padded_titles n ts) = max n (length ts)"
  by (simp add: padded_titles_def)

lemma pad_titles_eq:
  "pad_titles n titles w =
     (case titles of
        Fresh ts \<Rightarrow> (Fresh (padded_titles n ts), w)
      | Caller r \<Rightarrow> (Caller r, w\<lparr>heap := (heap w)(r := padded_titles n (heap w r))\<rparr>))"
proof (induction n titles w rule: pad_titles.induct)
  case (1 n titles w)
  show ?case
  proof (cases "length (get_titles titles w) < n")
    case False
    then show ?thesis
      by (subst pad_titles.simps) (cases titles; simp add: padded_titles_done)
  next
    case True
    show ?thesis
    proof (cases titles)
      case (Fresh ts)
      with True have l: "length ts < n" by simp
      have "pad_titles n (Fresh (ts @ [visualization_title (length ts + 1)])) w
          = (Fresh (padded_titles n (ts @ [visualization_title (length ts + 1)])), w)"
        using "1.IH"[OF True, of "Fresh (ts @ [visualization_title (length ts + 1)])" w]
        by (simp add: Fresh)
      with l show ?thesis
        by (subst pad_titles.simps) (simp add: Fresh padded_titles_step)
    next
      case (Caller r)
      with True have l: "length (heap w r) < n" by simp
      define w' where "w' = w\<lparr>heap := (heap w)(r := heap w r @ [visualization_title (length (heap w r) + 1)])\<rparr>"
      have "pad_titles n (Caller r) w'
          = (Caller r, w'\<lparr>heap := (heap w')(r := padded_titles n (heap w' r))\<rparr>)"
        using "1.IH"[OF True, of "Caller r" w']
        by (simp add: Caller w'_def)
      with l show ?thesis
        by (subst pad_titles.simps) (simp add: Caller padded_titles_step w'_def)
    qed
  qed
qed

lemma recorded_spec_stdout [simp]: "recorded_spec (w\<lparr>stdout := x\<rparr>) = recorded_spec w"
  by (simp add: recorded_spec_def fun_eq_iff)

lemma status_line_stdout [simp]: "status_line (w\<lparr>stdout := x\<rparr>) = status_line w"
  by (simp add: status_line_def fun_eq_iff)

lemma read_document_ok:
  "files w p \<noteq> Unreadable \<Longrightarrow>
     read_document i p w = (Inr (recorded_spec w p), w\<lparr>stdout := stdout w @ [status_line w i p]\<rparr>)"
  by (cases "files w p") (simp_all add: read_document_def recorded_spec_def status_line_def py_print_def)

lemma read_loop_ok:
  "\<forall>p\<in>set ps. files w p \<noteq> Unreadable \<Longrightarrow>
     read_loop i ps specs w =
       (Inr (specs @ map (recorded_spec w) ps),
        w\<lparr>stdout := stdout w @ map (\<lambda>(j, p). status_line w j p) (enumerate i ps)\<rparr>)"
proof (induction ps arbitrary: i specs w)
  case Nil
  then show ?case by simp
next
  case (Cons p ps)
  from Cons.prems have p: "files w p \<noteq> Unreadable" by simp
  define w' where "w' = w\<lparr>stdout := stdout w @ [status_line w i p]\<rparr>"
  have "\<forall>q\<in>set ps. files w' q \<noteq> Unreadable"
    using Cons.prems by (simp add: w'_def)
  from Cons.IH[OF this, of "Suc i" "specs @ [recorded_spec w p]"]
  show ?case
    by (simp add: read_document_ok[OF p] w'_def)
qed

lemma read_loop_frame:
  "files (snd (read_loop i ps specs w)) = files w
   \<and> writable (snd (read_loop i ps specs w)) = writable w
   \<and> heap (snd (read_loop i ps specs w)) = heap w"
proof (induction ps arbitrary: i specs w)
  case Nil
  then show ?case by simp
next
  case (Cons p ps)
  show ?case
    by (cases "files w p") (simp_all add: read_document_def py_print_def Cons.IH)
qed

lemma foldl_append_concat:
  "foldl (\<lambda>acc x. acc @ f x) a xs = a @ concat (map f xs)"
  by (induction xs arbitrary: a) simp_all

lemma enumerate_map_nth:
  "map (\<lambda>(i, x). f i x) (enumerate 0 xs) = map (\<lambda>i. f i (xs ! i)) [0..<length xs]"
proof (rule nth_equalityI)
  show "length (map (\<lambda>(i, x). f i x) (enumerate 0 xs))
      = length (map (\<lambda>i. f i (xs ! i)) [0..<length xs])"
    by simp
next
  fix i
  assume "i < length (map (\<lambda>(i, x). f i x) (enumerate 0 xs))"
  then have "i < length xs" by simp
  then show "map (\<lambda>(i, x). f i x) (enumerate 0 xs) ! i
      = map (\<lambda>i. f i (xs ! i)) [0..<length xs] ! i"
    by (simp add: nth_enumerate_eq)
qed

lemma vis_divs_concat:
  "vis_divs ts = concat (map (\<lambda>i. vis_div i (ts ! i)) [0..<length ts])"
proof -
  have "vis_divs ts = concat (map (\<lambda>(i, t). vis_div i t) (enumerate 0 ts))"
    unfolding vis_divs_def
    using foldl_append_concat[of "\<lambda>(i, t). vis_div i t" "[]" "enumerate 0 ts"]
    by (simp add: case_prod_unfold)
  then show ?thesis by (simp only: enumerate_map_nth)
qed

lemma spec_declarations_concat:
  "spec_declarations specs = concat (map (\<lambda>i. spec_declaration i (specs ! i)) [0..<length specs])"
proof -
  have "spec_declarations specs = concat (map (\<lambda>(i, s). spec_declaration i s) (enumerate 0 specs))"
    unfolding spec_declarations_def
    using foldl_append_concat[of "\<lambda>(i, s). spec_declaration i s" "[]" "enumerate 0 specs"]
    by (simp add: case_prod_unfold)
  then show ?thesis by (simp only: enumerate_map_nth)
qed

lemma render_code_concat:
  "render_code specs = concat (map render_call [0..<length specs])"
  unfolding render_code_def by (simp add: foldl_append_concat)

lemma merge_html_files_ok:
  assumes "\<forall>p\<in>set file_paths. files w p \<noteq> Unreadable" and "writable w output_path"
  shows "merge_html_files file_paths output_path titles w =
     (Inr (),
      w\<lparr>files := (files w)(output_path :=
            Readable (merged_html (effective_titles file_paths titles w)
                        (map (recorded_spec w) file_paths))),
        stdout := stdout w @ map (\<lambda>(i, p). status_line w i p) (enumerate 0 file_paths)
                    @ [summary_line (length file_paths) output_path],
        heap := (case titles of
                   None \<Rightarrow> heap w
                 | Some r \<Rightarrow> (heap w)(r := padded_titles (length file_paths) (heap w r)))\<rparr>)"
proof (cases titles)
  case None
  show ?thesis
    using assms
    by (simp add: merge_html_files_def None pad_titles_eq read_loop_ok write_file_def
        py_print_def effective_titles_def initial_titles_def)
next
  case (Some r)
  define w1 where "w1 = w\<lparr>heap := (heap w)(r := padded_titles (length file_paths) (heap w r))\<rparr>"
  have a: "\<forall>p\<in>set file_paths. files w1 p \<noteq> Unreadable"
    using assms(1) by (simp add: w1_def)
  have r: "recorded_spec w1 = recorded_spec w" "status_line w1 = status_line w"
    by (simp_all add: w1_def recorded_spec_def status_line_def fun_eq_iff)
  show ?thesis
    using assms(2)
    by (simp add: merge_html_files_def Some pad_titles_eq read_loop_ok[OF a] write_file_def
        py_print_def effective_titles_def initial_titles_def r w1_def[symmetric])
      (simp add: w1_def)
qed

lemma str_nat_digits:
  "str_nat 0 = ''0''" "str_nat 1 = ''1''" "str_nat 2 = ''2''" "str_nat 3 = ''3''"
  "str_nat (Suc 0) = ''1''" "str_nat (Suc (Suc 0)) = ''2''"
  by (simp_all add: str_nat.simps)

lemma merge_html_files_unfold:
  "merge_html_files file_paths output_path titles w =
     (case read_loop 0 file_paths []
             (w\<lparr>heap := (case titles of
                           None \<Rightarrow> heap w
                         | Some r \<Rightarrow> (heap w)(r := padded_titles (length file_paths) (heap w r)))\<rparr>) of
        (Inl e, w2) \<Rightarrow> (Inl e, w2)
      | (Inr specs, w2) \<Rightarrow>
          if writable w output_path
          then (Inr (),
                py_print (summary_line (length file_paths) output_path)
                  (w2\<lparr>files := (files w)(output_path :=
                          Readable (merged_html (effective_titles file_paths titles w) specs))\<rparr>))
          else (Inl WriteError, w2))"
proof (cases titles)
  case None
  obtain a w2 where R: "read_loop 0 file_paths [] w = (a, w2)" by (cases "read_loop 0 file_paths [] w")
  from read_loop_frame[of 0 file_paths "[]" w] R
  have f: "files w2 = files w" "writable w2 = writable w" "heap w2 = heap w" by simp_all
  show ?thesis
    by (cases a)
      (simp_all add: merge_html_files_def None pad_titles_eq R f write_file_def
        effective_titles_def initial_titles_def)
next
  case (Some r)
  define w1 where "w1 = w\<lparr>heap := (heap w)(r := padded_titles (length file_paths) (heap w r))\<rparr>"
  obtain a w2 where R: "read_loop 0 file_paths [] w1 = (a, w2)" by (cases "read_loop 0 file_paths [] w1")
  from read_loop_frame[of 0 file_paths "[]" w1] R
  have f: "files w2 = files w" "writable w2 = writable w" "heap w2 = heap w1"
    by (simp_all add: w1_def)
  show ?thesis
    by (cases a)
      (simp_all add: merge_html_files_def Some pad_titles_eq w1_def[symmetric] R f write_file_def
        effective_titles_def initial_titles_def, simp_all add: w1_def)
qed

lemma merge_html_files_heap:
  "heap (snd (merge_html_files file_paths output_path titles w)) =
     (case titles of
        None \<Rightarrow> heap w
      | Some r \<Rightarrow> (heap w)(r := padded_titles (length file_paths) (heap w r)))"
proof -
  define w1 where "w1 = w\<lparr>heap := (case titles of
                           None \<Rightarrow> heap w
                         | Some r \<Rightarrow> (heap w)(r := padded_titles (length file_paths) (heap w r)))\<rparr>"
  obtain a w2 where R: "read_loop 0 file_paths [] w1 = (a, w2)" by (cases "read_loop 0 file_paths [] w1")
  from read_loop_frame[of 0 file_paths "[]" w1] R
  have "heap w2 = heap w1" by simp
  then show ?thesis
    unfolding merge_html_files_unfold w1_def[symmetric] R
    by (cases a) (simp_all add: py_print_def w1_def)
qed

text \<open>
  The two selector lists run over \<^verbatim>\<open>range(1, len(specs) + 1)\<close> and still add one to the
  loop variable, so for one document the only selector names \<^verbatim>\<open>#vis2\<close>, a region the
  page does not have, and \<^verbatim>\<open>#vis1\<close> gets no rule.
\<close>

lemma style_selectors_start_at_two:
  "vega_embed_styles [spec] = ''#vis2.vega-embed''"
  by (simp add: vega_embed_styles_def style_selector_def str_nat_digits)

lemma status_read_not_missing: "status_read i p \<noteq> status_missing q"
  by (simp add: status_read_def status_missing_def)

lemma read_loop_nonempty:
  "read_loop i ps specs w = (Inr specs', w') \<Longrightarrow> \<forall>s\<in>set specs. s \<noteq> [] \<Longrightarrow>
     \<forall>s\<in>set specs'. s \<noteq> []"
proof (induction ps arbitrary: i specs w)
  case Nil
  then show ?case by simp
next
  case (Cons p ps)
  show ?case
  proof (cases "files w p")
    case (Readable html)
    with Cons.prems(1) have
      "read_loop (i + 1) ps (specs @ [extract_spec html]) (py_print (status_read i p) w)
         = (Inr specs', w')"
      by (simp add: read_document_def)
    from Cons.IH[OF this] Cons.prems(2) show ?thesis
      by (simp add: extract_spec_nonempty)
  next
    case Missing
    with Cons.prems(1) have
      "read_loop (i + 1) ps (specs @ [''{}'']) (py_print (status_missing p) w) = (Inr specs', w')"
      by (simp add: read_document_def)
    from Cons.IH[OF this] Cons.prems(2) show ?thesis by simp
  next
    case Unreadable
    with Cons.prems(1) show ?thesis by (simp add: read_document_def)
  qed
qed

text \<open>
  Claim C2. For a text in which the pattern does not occur, \<open>extract_spec\<close> returns the
  two characters \<^verbatim>\<open>{}\<close>; a readable document with such a text is recorded with that
  placeholder and its one status line is the "file read" line, which is never a warning
  line. And every specification that the read loop of the composer records is a
  non-empty string.
\<close>

theorem no_pattern_gives_placeholder:
  "(\<not> (\<exists>pre body post. text = pre @ ''var spec = {'' @ body @ ''};'' @ post) \<longrightarrow>
      extract_spec text = ''{}''
      \<and> (files w file_path = Readable text \<longrightarrow>
           read_document i file_path w = (Inr ''{}'', py_print (status_read i file_path) w)
           \<and> status_read i file_path \<noteq> status_missing q))
   \<and> (read_loop 0 file_paths [] w0 = (Inr specs, w1) \<longrightarrow> (\<forall>s\<in>set specs. s \<noteq> []))"
proof (intro conjI impI)
  assume a: "\<not> (\<exists>pre body post. text = pre @ ''var spec = {'' @ body @ ''};'' @ post)"
  then show e: "extract_spec text = ''{}''" by (rule extract_spec_no_pattern)
  assume "files w file_path = Readable text"
  with e show "read_document i file_path w = (Inr ''{}'', py_print (status_read i file_path) w)"
    by (simp add: read_document_def)
  show "status_read i file_path \<noteq> status_missing q" by (rule status_read_not_missing)
next
  assume "read_loop 0 file_paths [] w0 = (Inr specs, w1)"
  from read_loop_nonempty[OF this] show "\<forall>s\<in>set specs. s \<noteq> []" by simp
qed

theorem no_pattern_gives_placeholder_witness:
  \<open>extract_spec ''<html></html>'' = ''{}''
   \<and> read_document 0 ''plain.html'' world0
       = (Inr ''{}'', py_print (status_read 0 ''plain.html'') world0)
   \<and> status_read 0 ''plain.html'' \<noteq> status_missing ''plain.html''
   \<and> read_loop 0 [''plain.html'', ''gone.html''] [] world0
       = (Inr [''{}'', ''{}''],
          world0\<lparr>stdout := [status_read 0 ''plain.html'', status_missing ''gone.html'']\<rparr>)
   \<and> ''{}'' \<noteq> []\<close>
proof -
  have h: "\<not> (\<exists>pre body post. ''<html></html>'' = pre @ ''var spec = {'' @ body @ ''};'' @ post)"
  proof
    assume "\<exists>pre body post. ''<html></html>'' = pre @ ''var spec = {'' @ body @ ''};'' @ post"
    then obtain pre body post where
      "''<html></html>'' = pre @ ''var spec = {'' @ body @ ''};'' @ post" by blast
    then have "sublist ''var spec = {'' ''<html></html>''"
      by (metis sublist_appendI)
    then show False by (simp add: sublist_Cons_right)
  qed
  have f: "files world0 ''plain.html'' = Readable ''<html></html>''"
    by (simp add: world0_def)
  have l: "read_loop 0 [''plain.html'', ''gone.html''] [] world0
       = (Inr [''{}'', ''{}''],
          world0\<lparr>stdout := [status_read 0 ''plain.html'', status_missing ''gone.html'']\<rparr>)"
    using no_pattern_gives_placeholder
      [of "''<html></html>''" world0 "''plain.html''" 0 "''plain.html''"
          "[''plain.html'', ''gone.html'']" world0 "[''{}'', ''{}'']"
          "world0\<lparr>stdout := [status_read 0 ''plain.html'', status_missing ''gone.html'']\<rparr>"]
      h f
    by (simp add: read_document_def py_print_def world0_def)
  show ?thesis
    using no_pattern_gives_placeholder
      [of "''<html></html>''" world0 "''plain.html''" 0 "''plain.html''"
          "[''plain.html'', ''gone.html'']" world0 "[''{}'', ''{}'']"
          "world0\<lparr>stdout := [status_read 0 ''plain.html'', status_missing ''gone.html'']\<rparr>"]
      h f l
    by simp
qed

text \<open>
  Claim C10. When the caller passes a list of titles that is shorter than the list of
  paths, the call appends the synthesized titles to that very list: after the call
  (however it ends) the caller's list is the old one followed by the padding titles for
  the positions from its old length on, it differs from the old one, and it is at least
  as long as the list of paths.
\<close>

theorem caller_titles_padded_in_place:
  assumes "length (heap w r) < length file_paths"
  shows "heap (snd (merge_html_files file_paths output_path (Some r) w)) r
           = heap w r @ map (\<lambda>j. visualization_title (j + 1)) [length (heap w r)..<length file_paths]
       \<and> heap (snd (merge_html_files file_paths output_path (Some r) w)) r \<noteq> heap w r
       \<and> length file_paths \<le> length (heap (snd (merge_html_files file_paths output_path (Some r) w)) r)"
  using assms by (simp add: merge_html_files_heap padded_titles_def upt_conv_Cons)

theorem caller_titles_padded_in_place_witness:
  "heap (snd (merge_html_files [''a.html'', ''b.html''] ''out.html'' (Some 0) world0)) 0
     = [[CHR 0xF0, CHR 0x9F, CHR 0x93, CHR 0x8A] @ '' Visualization 1'',
        [CHR 0xF0, CHR 0x9F, CHR 0x93, CHR 0x8A] @ '' Visualization 2'']
   \<and> heap (snd (merge_html_files [''a.html'', ''b.html''] ''out.html'' (Some 0) world0)) 0 \<noteq> []
   \<and> heap world0 0 = []"
  using caller_titles_padded_in_place [of world0 0 "[''a.html'', ''b.html'']" "''out.html''"]
  by (simp add: world0_def upt_conv_Cons visualization_title_def str_nat_digits)

text \<open>
  Claim C9. With no document paths and a writable output path the call ends normally,
  writes the page, and prints one line, the summary with the count 0. The page is the six
  constant runs of the template with nothing between them: no visualization block, no
  declaration and no render call.
\<close>

theorem zero_documents_still_write:
  assumes "writable w output_path"
  shows "merge_html_files [] output_path titles w =
           (Inr (),
            w\<lparr>files := (files w)(output_path := Readable (merged_html [] [])),
              stdout := stdout w @ [summary_line 0 output_path]\<rparr>)
       \<and> merged_html [] [] =
           html_head @ html_style_mid @ html_body_open @ html_script_open @ html_script_mid @ html_tail
       \<and> vis_divs [] = [] \<and> spec_declarations [] = [] \<and> render_code [] = []
       \<and> summary_line 0 output_path =
           ''\<newline>'' @ [CHR 0xE2, CHR 0x9C, CHR 0x85] @ '' '' @
           [CHR 0xE6, CHR 0x88, CHR 0x90, CHR 0xE5, CHR 0x8A, CHR 0x9F, CHR 0xE5, CHR 0x90, CHR 0x88,
            CHR 0xE5, CHR 0xB9, CHR 0xB6] @
           '' 0 '' @ [CHR 0xE4, CHR 0xB8, CHR 0xAA] @ ''HTML'' @
           [CHR 0xE6, CHR 0x96, CHR 0x87, CHR 0xE4, CHR 0xBB, CHR 0xB6, CHR 0xE5, CHR 0x88, CHR 0xB0] @
           '': '' @ output_path"
proof -
  have "merge_html_files [] output_path titles w =
           (Inr (),
            w\<lparr>files := (files w)(output_path := Readable (merged_html [] [])),
              stdout := stdout w @ [summary_line 0 output_path]\<rparr>)"
    using merge_html_files_ok[of "[]" w output_path titles] assms
    by (cases titles) (simp_all add: effective_titles_def padded_titles_done)
  moreover have "merged_html [] [] =
      html_head @ html_style_mid @ html_body_open @ html_script_open @ html_script_mid @ html_tail"
    by (simp add: merged_html_def vis_divs_def spec_declarations_def render_code_def
        vega_embed_styles_def vega_embed_details_def)
  moreover have "vis_divs [] = []" "spec_declarations [] = []" "render_code [] = []"
    by (simp_all add: vis_divs_def spec_declarations_def render_code_def)
  moreover have "summary_line 0 output_path =
           ''\<newline>'' @ [CHR 0xE2, CHR 0x9C, CHR 0x85] @ '' '' @
           [CHR 0xE6, CHR 0x88, CHR 0x90, CHR 0xE5, CHR 0x8A, CHR 0x9F, CHR 0xE5, CHR 0x90, CHR 0x88,
            CHR 0xE5, CHR 0xB9, CHR 0xB6] @
           '' 0 '' @ [CHR 0xE4, CHR 0xB8, CHR 0xAA] @ ''HTML'' @
           [CHR 0xE6, CHR 0x96, CHR 0x87, CHR 0xE4, CHR 0xBB, CHR 0xB6, CHR 0xE5, CHR 0x88, CHR 0xB0] @
           '': '' @ output_path"
    by (simp add: summary_line_def str_nat_digits)
  ultimately show ?thesis by blast
qed

theorem zero_documents_still_write_witness:
  "merge_html_files [] ''out.html'' None world0 =
     (Inr (),
      world0\<lparr>files := (files world0)(''out.html'' := Readable (merged_html [] [])),
             stdout := [summary_line 0 ''out.html'']\<rparr>)
   \<and> merged_html [] [] =
       html_head @ html_style_mid @ html_body_open @ html_script_open @ html_script_mid @ html_tail"
  using zero_documents_still_write [of world0 "''out.html''" None]
  by (simp add: world0_def)

lemma extract_spec_examples:
  \<open>extract_spec ''<script>var spec = {"a": 1};</script>'' = ''{"a": 1}''\<close>
  \<open>extract_spec ''<script>var spec = {"b": [1,2,3]};</script>'' = ''{"b": [1,2,3]}''\<close>
  by (simp_all add: extract_spec_def match_here_def)

lemma length_effective_titles:
  "length (effective_titles file_paths titles w) = length file_paths"
  by (simp add: effective_titles_def length_padded_titles)

lemma render_call_text:
  \<open>render_call 0 =
     ''\<newline>'' @
     ''      // '' @
     [CHR 0xE6, CHR 0xB8, CHR 0xB2, CHR 0xE6, CHR 0x9F, CHR 0x93, CHR 0xE7, CHR 0xAC, CHR 0xAC] @
     ''1'' @
     [CHR 0xE4, CHR 0xB8, CHR 0xAA, CHR 0xE5, CHR 0x9B, CHR 0xBE, CHR 0xE8, CHR 0xA1, CHR 0xA8] @
     ''\<newline>'' @
     ''      const el1 = document.getElementById('vis1');\<newline>'' @
     ''      vegaEmbed("#vis1", spec1, embedOpt)\<newline>'' @
     ''        .catch(error => showError(el1, error));\<newline>'' @
     ''      ''\<close>
  \<open>render_call 1 =
     ''\<newline>'' @
     ''      // '' @
     [CHR 0xE6, CHR 0xB8, CHR 0xB2, CHR 0xE6, CHR 0x9F, CHR 0x93, CHR 0xE7, CHR 0xAC, CHR 0xAC] @
     ''2'' @
     [CHR 0xE4, CHR 0xB8, CHR 0xAA, CHR 0xE5, CHR 0x9B, CHR 0xBE, CHR 0xE8, CHR 0xA1, CHR 0xA8] @
     ''\<newline>'' @
     ''      const el2 = document.getElementById('vis2');\<newline>'' @
     ''      vegaEmbed("#vis2", spec2, embedOpt)\<newline>'' @
     ''        .catch(error => showError(el2, error));\<newline>'' @
     ''      ''\<close>
  by (simp_all add: render_call_def str_nat_digits)

lemma read_loop_cong:
  "\<forall>p\<in>set ps. files w1 p = files w2 p \<Longrightarrow>
     fst (read_loop i ps specs w1) = fst (read_loop i ps specs w2)"
proof (induction ps arbitrary: i specs w1 w2)
  case Nil
  then show ?case by simp
next
  case (Cons p ps)
  from Cons.prems have p: "files w1 p = files w2 p"
    and rest: "\<And>l1 l2. \<forall>q\<in>set ps. files (py_print l1 w1) q = files (py_print l2 w2) q"
    by (simp_all add: py_print_def)
  show ?case
  proof (cases "files w2 p")
    case (Readable html)
    with p Cons.IH[OF rest] show ?thesis by (simp add: read_document_def)
  next
    case Missing
    with p Cons.IH[OF rest] show ?thesis by (simp add: read_document_def)
  next
    case Unreadable
    with p show ?thesis by (simp add: read_document_def)
  qed
qed

text \<open>
  Claim C3, as amended. For a supplied list of \<open>M\<close> titles and \<open>N\<close> paths (none of them
  unreadable, the output path writable) the page is built from a title list of length
  exactly \<open>N\<close>: the first \<open>N\<close> supplied titles when \<open>N \<le> M\<close>, and otherwise the supplied
  titles followed, for each position from \<open>M + 1\<close> to \<open>N\<close>, by the bar chart emoji
  U+1F4CA, a space, the word Visualization, a space and the position. The claim as written
  leaves the emoji and its space out.
\<close>

theorem effective_titles_reconciled:
  assumes "\<forall>p\<in>set file_paths. files w p \<noteq> Unreadable" and "writable w output_path"
  shows "fst (merge_html_files file_paths output_path (Some r) w) = Inr ()
       \<and> files (snd (merge_html_files file_paths output_path (Some r) w)) output_path
           = Readable (merged_html (effective_titles file_paths (Some r) w)
                         (map (recorded_spec w) file_paths))
       \<and> length (effective_titles file_paths (Some r) w) = length file_paths
       \<and> (length file_paths \<le> length (heap w r) \<longrightarrow>
            effective_titles file_paths (Some r) w = take (length file_paths) (heap w r))
       \<and> (length (heap w r) < length file_paths \<longrightarrow>
            effective_titles file_paths (Some r) w
              = heap w r @
                map (\<lambda>j. [CHR 0xF0, CHR 0x9F, CHR 0x93, CHR 0x8A] @ '' Visualization '' @
                          str_nat (j + 1))
                  [length (heap w r)..<length file_paths])"
proof (intro conjI impI)
  show "fst (merge_html_files file_paths output_path (Some r) w) = Inr ()"
    by (simp add: merge_html_files_ok[OF assms])
  show "files (snd (merge_html_files file_paths output_path (Some r) w)) output_path
           = Readable (merged_html (effective_titles file_paths (Some r) w)
                         (map (recorded_spec w) file_paths))"
    by (simp add: merge_html_files_ok[OF assms])
  show "length (effective_titles file_paths (Some r) w) = length file_paths"
    by (rule length_effective_titles)
next
  assume "length file_paths \<le> length (heap w r)"
  then show "effective_titles file_paths (Some r) w = take (length file_paths) (heap w r)"
    by (simp add: effective_titles_def initial_titles_def padded_titles_def)
next
  assume "length (heap w r) < length file_paths"
  then show "effective_titles file_paths (Some r) w
              = heap w r @
                map (\<lambda>j. [CHR 0xF0, CHR 0x9F, CHR 0x93, CHR 0x8A] @ '' Visualization '' @
                          str_nat (j + 1))
                  [length (heap w r)..<length file_paths]"
    by (simp add: effective_titles_def initial_titles_def padded_titles_def
        visualization_title_def)
qed

theorem effective_titles_reconciled_witness:
  \<open>fst (merge_html_files [''a.html'', ''gone.html''] ''out.html'' (Some 0)
          (world0\<lparr>heap := (\<lambda>_. [''Spending''])\<rparr>)) = Inr ()
   \<and> files (snd (merge_html_files [''a.html'', ''gone.html''] ''out.html'' (Some 0)
                   (world0\<lparr>heap := (\<lambda>_. [''Spending''])\<rparr>))) ''out.html''
       = Readable (merged_html
           [''Spending'', [CHR 0xF0, CHR 0x9F, CHR 0x93, CHR 0x8A] @ '' Visualization 2'']
           [''{"a": 1}'', ''{}''])\<close>
  using effective_titles_reconciled
    [of "[''a.html'', ''gone.html'']" "world0\<lparr>heap := (\<lambda>_. [''Spending''])\<rparr>" "''out.html''" 0]
  by (simp add: world0_def recorded_spec_def extract_spec_examples str_nat_digits)

text \<open>
  The claim as written fails for one path and an empty supplied list: the title in use
  and left in the caller's list starts with the emoji, so it is not the bare
  \<^verbatim>\<open>Visualization 1\<close>.
\<close>

theorem padding_title_counterexample:
  \<open>fst (merge_html_files [''a.html''] ''out.html'' (Some 0) world0) = Inr ()
   \<and> files (snd (merge_html_files [''a.html''] ''out.html'' (Some 0) world0)) ''out.html''
       = Readable (merged_html [[CHR 0xF0, CHR 0x9F, CHR 0x93, CHR 0x8A] @ '' Visualization 1'']
                     [''{"a": 1}''])
   \<and> heap (snd (merge_html_files [''a.html''] ''out.html'' (Some 0) world0)) 0
       = [[CHR 0xF0, CHR 0x9F, CHR 0x93, CHR 0x8A] @ '' Visualization 1'']
   \<and> [CHR 0xF0, CHR 0x9F, CHR 0x93, CHR 0x8A] @ '' Visualization 1'' \<noteq> ''Visualization 1''\<close>
proof -
  have ok: "\<forall>p\<in>set [''a.html'']. files world0 p \<noteq> Unreadable" "writable world0 ''out.html''"
    by (simp_all add: world0_def)
  show ?thesis
    by (simp add: merge_html_files_ok[OF ok] effective_titles_def initial_titles_def
        padded_titles_def visualization_title_def str_nat_digits recorded_spec_def
        extract_spec_examples)
      (simp add: world0_def extract_spec_examples)
qed

text \<open>
  The digits that \<open>str_nat\<close> writes read back as the number, so the number in a block is
  the position it is written for.
\<close>

lemma digit_value: "d < 10 \<Longrightarrow> (of_char (''0123456789'' ! d) :: nat) - 48 = d"
proof -
  assume "d < 10"
  then have "d \<in> {0, 1, 2, 3, 4, 5, 6, 7, 8, 9}" by auto
  then show ?thesis by auto
qed

lemma str_nat_reads_back:
  "foldl (\<lambda>a c. 10 * a + ((of_char c :: nat) - 48)) 0 (str_nat n) = n"
proof (induction n rule: str_nat.induct)
  case (1 n)
  show ?case
  proof (cases "n < 10")
    case True
    then show ?thesis
      by (subst str_nat.simps) (simp add: digit_value)
  next
    case False
    from "1.IH"[OF False]
    have "foldl (\<lambda>a c. 10 * a + ((of_char c :: nat) - 48)) 0 (str_nat (n div 10)) = n div 10" .
    moreover have "(of_char (''0123456789'' ! (n mod 10)) :: nat) - 48 = n mod 10"
      by (rule digit_value) simp
    ultimately show ?thesis
      using False by (subst str_nat.simps) simp
  qed
qed

text \<open>
  Claim C5. For a run over \<open>N\<close> paths that completes (no path unreadable, the output path
  writable), the page written is the template with exactly \<open>N\<close> visualization blocks,
  \<open>N\<close> declarations and \<open>N\<close> render calls, in path order, each spelled out below. For
  \<open>i\<close> from 0 to \<open>N - 1\<close> the texts carry the number \<open>i + 1\<close>, so they are numbered 1 to
  \<open>N\<close>: block \<open>i\<close> holds title \<open>i\<close> and the empty region \<^verbatim>\<open>vis\<close>\<open>i + 1\<close>; declaration \<open>i\<close>
  binds \<^verbatim>\<open>spec\<close>\<open>i + 1\<close> to the specification recorded for path \<open>i\<close>, unchanged, which is the
  extracted text of a readable document and \<^verbatim>\<open>{}\<close> for a missing one; call \<open>i\<close> passes
  \<^verbatim>\<open>#vis\<close>\<open>i + 1\<close> and \<^verbatim>\<open>spec\<close>\<open>i + 1\<close> to \<^verbatim>\<open>vegaEmbed\<close> and catches a failure with
  \<^verbatim>\<open>showError\<close> on that region. The last line says that the digits written for \<open>i + 1\<close>
  read back as \<open>i + 1\<close>.
\<close>

theorem output_has_one_block_per_document:
  assumes "\<forall>p\<in>set file_paths. files w p \<noteq> Unreadable" and "writable w output_path"
  shows \<open>fst (merge_html_files file_paths output_path titles w) = Inr ()
       \<and> files (snd (merge_html_files file_paths output_path titles w)) output_path
           = Readable
               (html_head @ vega_embed_styles (map (recorded_spec w) file_paths) @
                html_style_mid @ vega_embed_details (map (recorded_spec w) file_paths) @
                html_body_open @
                concat (map (\<lambda>i.
                    ''\<newline>'' @
                    ''    <!-- '' @ [CHR 0xE7, CHR 0xAC, CHR 0xAC] @ str_nat (i + 1) @
                    [CHR 0xE4, CHR 0xB8, CHR 0xAA, CHR 0xE5, CHR 0x8F, CHR 0xAF, CHR 0xE8, CHR 0xA7,
                     CHR 0x86, CHR 0xE5, CHR 0x8C, CHR 0x96] @ '' -->\<newline>'' @
                    ''    <div class="visualization">\<newline>'' @
                    ''      <div class="vis-title">'' @
                    effective_titles file_paths titles w ! i @ ''</div>\<newline>'' @
                    ''      <div id="vis'' @ str_nat (i + 1) @ ''"></div>\<newline>'' @
                    ''    </div>\<newline>'' @
                    ''    '')
                  [0..<length file_paths]) @
                html_script_open @
                concat (map (\<lambda>i.
                    ''      var spec'' @ str_nat (i + 1) @ '' = '' @
                    recorded_spec w (file_paths ! i) @ '';\<newline>'')
                  [0..<length file_paths]) @
                html_script_mid @
                concat (map (\<lambda>i.
                    ''\<newline>'' @
                    ''      // '' @
                    [CHR 0xE6, CHR 0xB8, CHR 0xB2, CHR 0xE6, CHR 0x9F, CHR 0x93, CHR 0xE7, CHR 0xAC,
                     CHR 0xAC] @ str_nat (i + 1) @
                    [CHR 0xE4, CHR 0xB8, CHR 0xAA, CHR 0xE5, CHR 0x9B, CHR 0xBE, CHR 0xE8, CHR 0xA1,
                     CHR 0xA8] @ ''\<newline>'' @
                    ''      const el'' @ str_nat (i + 1) @
                    '' = document.getElementById('vis'' @ str_nat (i + 1) @ [CHR 0x27] @
                    '');\<newline>'' @
                    ''      vegaEmbed("#vis'' @ str_nat (i + 1) @ ''", spec'' @ str_nat (i + 1) @
                    '', embedOpt)\<newline>'' @
                    ''        .catch(error => showError(el'' @ str_nat (i + 1) @
                    '', error));\<newline>'' @
                    ''      '')
                  [0..<length file_paths]) @
                html_tail)
       \<and> length (effective_titles file_paths titles w) = length file_paths
       \<and> (\<forall>i<length file_paths.
            recorded_spec w (file_paths ! i)
              = (case files w (file_paths ! i) of
                   Readable html_content \<Rightarrow> extract_spec html_content
                 | _ \<Rightarrow> ''{}''))
       \<and> (\<forall>i<length file_paths.
            foldl (\<lambda>a c. 10 * a + ((of_char c :: nat) - 48)) 0 (str_nat (i + 1)) = i + 1)\<close>
proof -
  have 1: "fst (merge_html_files file_paths output_path titles w) = Inr ()"
    by (simp add: merge_html_files_ok[OF assms])
  have d: "concat (map (\<lambda>i. spec_declaration i (map (recorded_spec w) file_paths ! i))
                  [0..<length file_paths])
      = concat (map (\<lambda>i. spec_declaration i (recorded_spec w (file_paths ! i)))
                  [0..<length file_paths])"
    by (rule arg_cong[where f = concat]) simp
  have 2: "files (snd (merge_html_files file_paths output_path titles w)) output_path
      = Readable
          (html_head @ vega_embed_styles (map (recorded_spec w) file_paths) @
           html_style_mid @ vega_embed_details (map (recorded_spec w) file_paths) @
           html_body_open @
           concat (map (\<lambda>i. vis_div i (effective_titles file_paths titles w ! i))
                     [0..<length file_paths]) @
           html_script_open @
           concat (map (\<lambda>i. spec_declaration i (recorded_spec w (file_paths ! i)))
                     [0..<length file_paths]) @
           html_script_mid @
           concat (map render_call [0..<length file_paths]) @
           html_tail)"
    using d
    by (simp add: merge_html_files_ok[OF assms] merged_html_def vis_divs_concat
        spec_declarations_concat render_code_concat length_effective_titles)
  have 3: "length (effective_titles file_paths titles w) = length file_paths"
    by (rule length_effective_titles)
  have 4: "\<forall>i<length file_paths.
            recorded_spec w (file_paths ! i)
              = (case files w (file_paths ! i) of
                   Readable html_content \<Rightarrow> extract_spec html_content
                 | _ \<Rightarrow> ''{}'')"
  proof (intro allI impI)
    fix i assume "i < length file_paths"
    then have "file_paths ! i \<in> set file_paths" by simp
    with assms(1) have "files w (file_paths ! i) \<noteq> Unreadable" by blast
    then show "recorded_spec w (file_paths ! i)
              = (case files w (file_paths ! i) of
                   Readable html_content \<Rightarrow> extract_spec html_content
                 | _ \<Rightarrow> ''{}'')"
      by (simp add: recorded_spec_def split: file_state.splits)
  qed
  have 5: "\<forall>i<length file_paths.
            foldl (\<lambda>a c. 10 * a + ((of_char c :: nat) - 48)) 0 (str_nat (i + 1)) = i + 1"
    by (simp add: str_nat_reads_back)
  show ?thesis
    apply (intro conjI)
    subgoal by (rule 1)
    subgoal by (subst 2) (simp add: vis_div_def spec_declaration_def render_call_def[abs_def])
    subgoal by (rule 3)
    subgoal by (rule 4)
    subgoal by (rule 5)
    done
qed

theorem output_has_one_block_per_document_witness:
  \<open>fst (merge_html_files [''a.html'', ''gone.html''] ''out.html'' None world0) = Inr ()
   \<and> files (snd (merge_html_files [''a.html'', ''gone.html''] ''out.html'' None world0)) ''out.html''
       = Readable
           (html_head @ vega_embed_styles [''{"a": 1}'', ''{}''] @
            html_style_mid @ vega_embed_details [''{"a": 1}'', ''{}''] @
            html_body_open @
            (''\<newline>'' @
             ''    <!-- '' @ [CHR 0xE7, CHR 0xAC, CHR 0xAC] @ ''1'' @
             [CHR 0xE4, CHR 0xB8, CHR 0xAA, CHR 0xE5, CHR 0x8F, CHR 0xAF, CHR 0xE8, CHR 0xA7,
              CHR 0x86, CHR 0xE5, CHR 0x8C, CHR 0x96] @ '' -->\<newline>'' @
             ''    <div class="visualization">\<newline>'' @
             ''      <div class="vis-title">'' @ default_titles ! 0 @ ''</div>\<newline>'' @
             ''      <div id="vis1"></div>\<newline>'' @
             ''    </div>\<newline>'' @
             ''    '') @
            (''\<newline>'' @
             ''    <!-- '' @ [CHR 0xE7, CHR 0xAC, CHR 0xAC] @ ''2'' @
             [CHR 0xE4, CHR 0xB8, CHR 0xAA, CHR 0xE5, CHR 0x8F, CHR 0xAF, CHR 0xE8, CHR 0xA7,
              CHR 0x86, CHR 0xE5, CHR 0x8C, CHR 0x96] @ '' -->\<newline>'' @
             ''    <div class="visualization">\<newline>'' @
             ''      <div class="vis-title">'' @ default_titles ! 1 @ ''</div>\<newline>'' @
             ''      <div id="vis2"></div>\<newline>'' @
             ''    </div>\<newline>'' @
             ''    '') @
            html_script_open @
            ''      var spec1 = {"a": 1};\<newline>'' @
            ''      var spec2 = {};\<newline>'' @
            html_script_mid @
            (''\<newline>'' @
             ''      // '' @
             [CHR 0xE6, CHR 0xB8, CHR 0xB2, CHR 0xE6, CHR 0x9F, CHR 0x93, CHR 0xE7, CHR 0xAC,
              CHR 0xAC] @ ''1'' @
             [CHR 0xE4, CHR 0xB8, CHR 0xAA, CHR 0xE5, CHR 0x9B, CHR 0xBE, CHR 0xE8, CHR 0xA1,
              CHR 0xA8] @ ''\<newline>'' @
             ''      const el1 = document.getElementById('vis1');\<newline>'' @
             ''      vegaEmbed("#vis1", spec1, embedOpt)\<newline>'' @
             ''        .catch(error => showError(el1, error));\<newline>'' @
             ''      '') @
            (''\<newline>'' @
             ''      // '' @
             [CHR 0xE6, CHR 0xB8, CHR 0xB2, CHR 0xE6, CHR 0x9F, CHR 0x93, CHR 0xE7, CHR 0xAC,
              CHR 0xAC] @ ''2'' @
             [CHR 0xE4, CHR 0xB8, CHR 0xAA, CHR 0xE5, CHR 0x9B, CHR 0xBE, CHR 0xE8, CHR 0xA1,
              CHR 0xA8] @ ''\<newline>'' @
             ''      const el2 = document.getElementById('vis2');\<newline>'' @
             ''      vegaEmbed("#vis2", spec2, embedOpt)\<newline>'' @
             ''        .catch(error => showError(el2, error));\<newline>'' @
             ''      '') @
            html_tail)\<close>
proof -
  have e: "effective_titles [''a.html'', ''gone.html''] None world0
      = [default_titles ! 0, default_titles ! 1]"
    by (simp add: effective_titles_def initial_titles_def padded_titles_def default_titles_def)
  have h: "\<forall>p\<in>set [''a.html'', ''gone.html'']. files world0 p \<noteq> Unreadable"
    "writable world0 ''out.html''"
    by (simp_all add: world0_def)
  have r: \<open>recorded_spec world0 ''a.html'' = ''{"a": 1}''\<close>
    \<open>recorded_spec world0 ''gone.html'' = ''{}''\<close>
    by (simp_all add: world0_def recorded_spec_def extract_spec_examples)
  note t = output_has_one_block_per_document [OF h, of None]
  show ?thesis
    apply (rule conjI)
     apply (rule t[THEN conjunct1])
    apply (subst t[THEN conjunct2, THEN conjunct1])
    apply (simp add: e r upt_conv_Cons str_nat_digits)
    done
qed

text \<open>
  Claim C8. Two documents whose text holds \<^verbatim>\<open>var spec = {"a": 1};\<close> and
  \<^verbatim>\<open>var spec = {"b": [1,2,3]};\<close>, each as the first assignment of its document (a source
  document holds one specification assignment), composed with the default titles: the
  run completes and the page holds the declarations \<^verbatim>\<open>var spec1 = {"a": 1};\<close> and
  \<^verbatim>\<open>var spec2 = {"b": [1,2,3]};\<close> in that order, and after them the two render calls, the
  first for \<^verbatim>\<open>#vis1\<close> and \<^verbatim>\<open>spec1\<close>, the second for \<^verbatim>\<open>#vis2\<close> and \<^verbatim>\<open>spec2\<close>.
\<close>

theorem round_trip_two_documents:
  assumes \<open>files w p1 = Readable (pre1 @ ''var spec = {"a": 1};'' @ post1)\<close>
    and \<open>files w p2 = Readable (pre2 @ ''var spec = {"b": [1,2,3]};'' @ post2)\<close>
    and "\<not> sublist ''var spec = {'' (pre1 @ ''var spec = '')"
    and "\<not> sublist ''var spec = {'' (pre2 @ ''var spec = '')"
    and "writable w output_path"
  shows \<open>fst (merge_html_files [p1, p2] output_path None w) = Inr ()
       \<and> files (snd (merge_html_files [p1, p2] output_path None w)) output_path
           = Readable
               (html_head @ vega_embed_styles [''{"a": 1}'', ''{"b": [1,2,3]}''] @
                html_style_mid @ vega_embed_details [''{"a": 1}'', ''{"b": [1,2,3]}''] @
                html_body_open @
                vis_div 0 (default_titles ! 0) @ vis_div 1 (default_titles ! 1) @
                html_script_open @
                (''      var spec1 = {"a": 1};\<newline>'' @
                 ''      var spec2 = {"b": [1,2,3]};\<newline>'') @
                html_script_mid @
                (''\<newline>'' @
                 ''      // '' @
                 [CHR 0xE6, CHR 0xB8, CHR 0xB2, CHR 0xE6, CHR 0x9F, CHR 0x93, CHR 0xE7, CHR 0xAC,
                  CHR 0xAC] @ ''1'' @
                 [CHR 0xE4, CHR 0xB8, CHR 0xAA, CHR 0xE5, CHR 0x9B, CHR 0xBE, CHR 0xE8, CHR 0xA1,
                  CHR 0xA8] @ ''\<newline>'' @
                 ''      const el1 = document.getElementById('vis1');\<newline>'' @
                 ''      vegaEmbed("#vis1", spec1, embedOpt)\<newline>'' @
                 ''        .catch(error => showError(el1, error));\<newline>'' @
                 ''      '' @
                 ''\<newline>'' @
                 ''      // '' @
                 [CHR 0xE6, CHR 0xB8, CHR 0xB2, CHR 0xE6, CHR 0x9F, CHR 0x93, CHR 0xE7, CHR 0xAC,
                  CHR 0xAC] @ ''2'' @
                 [CHR 0xE4, CHR 0xB8, CHR 0xAA, CHR 0xE5, CHR 0x9B, CHR 0xBE, CHR 0xE8, CHR 0xA1,
                  CHR 0xA8] @ ''\<newline>'' @
                 ''      const el2 = document.getElementById('vis2');\<newline>'' @
                 ''      vegaEmbed("#vis2", spec2, embedOpt)\<newline>'' @
                 ''        .catch(error => showError(el2, error));\<newline>'' @
                 ''      '') @
                html_tail)\<close>
proof -
  have b: \<open>\<not> sublist ''};'' (''"a": 1'' @ ''}'')\<close> \<open>\<not> sublist ''};'' (''"b": [1,2,3]'' @ ''}'')\<close>
    by (simp_all add: sublist_Cons_right)
  have \<open>extract_spec (pre1 @ ''var spec = {'' @ ''"a": 1'' @ ''};'' @ post1)
      = ''{'' @ ''"a": 1'' @ ''}''\<close>
    by (rule extract_spec_first[OF assms(3) b(1)])
  then have s1: \<open>extract_spec (pre1 @ ''var spec = {"a": 1};'' @ post1) = ''{"a": 1}''\<close>
    by simp
  have \<open>extract_spec (pre2 @ ''var spec = {'' @ ''"b": [1,2,3]'' @ ''};'' @ post2)
      = ''{'' @ ''"b": [1,2,3]'' @ ''}''\<close>
    by (rule extract_spec_first[OF assms(4) b(2)])
  then have s2: \<open>extract_spec (pre2 @ ''var spec = {"b": [1,2,3]};'' @ post2) = ''{"b": [1,2,3]}''\<close>
    by simp
  have r: \<open>map (recorded_spec w) [p1, p2] = [''{"a": 1}'', ''{"b": [1,2,3]}'']\<close>
    using s1 s2 by (simp add: recorded_spec_def assms(1,2))
  have e: "effective_titles [p1, p2] None w = [default_titles ! 0, default_titles ! 1]"
    by (simp add: effective_titles_def initial_titles_def padded_titles_def default_titles_def)
  have ok: "\<forall>p\<in>set [p1, p2]. files w p \<noteq> Unreadable"
    by (simp add: assms(1,2))
  have d: \<open>spec_declarations [''{"a": 1}'', ''{"b": [1,2,3]}'']
      = ''      var spec1 = {"a": 1};\<newline>'' @ ''      var spec2 = {"b": [1,2,3]};\<newline>''\<close>
    by (simp add: spec_declarations_concat upt_conv_Cons spec_declaration_def str_nat_digits)
  have c: \<open>render_code [''{"a": 1}'', ''{"b": [1,2,3]}''] = render_call 0 @ render_call 1\<close>
    by (simp add: render_code_concat upt_conv_Cons)
  have v: "vis_divs [default_titles ! 0, default_titles ! 1]
      = vis_div 0 (default_titles ! 0) @ vis_div 1 (default_titles ! 1)"
    by (simp add: vis_divs_concat upt_conv_Cons)
  have \<open>merged_html (effective_titles [p1, p2] None w) (map (recorded_spec w) [p1, p2])
      = html_head @ vega_embed_styles [''{"a": 1}'', ''{"b": [1,2,3]}''] @
        html_style_mid @ vega_embed_details [''{"a": 1}'', ''{"b": [1,2,3]}''] @
        html_body_open @
        (vis_div 0 (default_titles ! 0) @ vis_div 1 (default_titles ! 1)) @
        html_script_open @
        (''      var spec1 = {"a": 1};\<newline>'' @ ''      var spec2 = {"b": [1,2,3]};\<newline>'') @
        html_script_mid @ (render_call 0 @ render_call 1) @ html_tail\<close>
    unfolding r e merged_html_def d c v ..
  then show ?thesis
    unfolding render_call_text
    by (simp add: merge_html_files_ok[OF ok assms(5)])
qed

theorem round_trip_two_documents_witness:
  \<open>fst (merge_html_files [''a.html'', ''b.html''] ''out.html'' None world0) = Inr ()
   \<and> (\<exists>before between after.
        files (snd (merge_html_files [''a.html'', ''b.html''] ''out.html'' None world0)) ''out.html''
          = Readable
              (before @
               ''      var spec1 = {"a": 1};\<newline>      var spec2 = {"b": [1,2,3]};\<newline>'' @
               between @ ''vegaEmbed("#vis1", spec1, embedOpt)'' @ after))\<close>
proof -
  have h: "\<not> sublist ''var spec = {'' (''<script>'' @ ''var spec = '')"
    by (simp add: sublist_Cons_right)
  have f: \<open>files world0 ''a.html'' = Readable (''<script>'' @ ''var spec = {"a": 1};'' @ ''</script>'')\<close>
    \<open>files world0 ''b.html'' = Readable (''<script>'' @ ''var spec = {"b": [1,2,3]};'' @ ''</script>'')\<close>
    "writable world0 ''out.html''"
    by (simp_all add: world0_def)
  note t = round_trip_two_documents [OF f(1) f(2) h h f(3)]
  show ?thesis
    apply (rule conjI)
     apply (rule t[THEN conjunct1])
    apply (subst t[THEN conjunct2])
    apply (rule exI[where x = \<open>html_head @ vega_embed_styles [''{"a": 1}'', ''{"b": [1,2,3]}''] @
                html_style_mid @ vega_embed_details [''{"a": 1}'', ''{"b": [1,2,3]}''] @
                html_body_open @
                vis_div 0 (default_titles ! 0) @ vis_div 1 (default_titles ! 1) @
                html_script_open\<close>])
    apply (rule exI[where x = "html_script_mid @ ''\<newline>'' @
                 ''      // '' @
                 [CHR 0xE6, CHR 0xB8, CHR 0xB2, CHR 0xE6, CHR 0x9F, CHR 0x93, CHR 0xE7, CHR 0xAC,
                  CHR 0xAC] @ ''1'' @
                 [CHR 0xE4, CHR 0xB8, CHR 0xAA, CHR 0xE5, CHR 0x9B, CHR 0xBE, CHR 0xE8, CHR 0xA1,
                  CHR 0xA8] @ ''\<newline>'' @
                 ''      const el1 = document.getElementById('vis1');\<newline>'' @
                 ''      ''"])
    apply (rule exI[where x = "''\<newline>'' @
                 ''        .catch(error => showError(el1, error));\<newline>'' @
                 ''      '' @ render_call 1 @ html_tail"])
    apply (simp add: render_call_def str_nat_digits)
    done
qed

text \<open>
  Claim C7. Two runs with the same paths, the same output path and the same titles
  argument, in two worlds that agree on what the documents hold, on the supplied title
  list and on whether the output path can be written: both end the same way, and when
  they complete the two pages written are equal. Nothing else in the world (other files,
  earlier output, other lists) has any influence. The witness runs the composer a second
  time in the world the first run left.
\<close>

theorem compose_deterministic:
  assumes "\<forall>p\<in>set file_paths. files w1 p = files w2 p"
    and "\<forall>r. titles = Some r \<longrightarrow> heap w1 r = heap w2 r"
    and "writable w1 output_path = writable w2 output_path"
  shows "fst (merge_html_files file_paths output_path titles w1)
           = fst (merge_html_files file_paths output_path titles w2)
       \<and> (fst (merge_html_files file_paths output_path titles w1) = Inr () \<longrightarrow>
            files (snd (merge_html_files file_paths output_path titles w1)) output_path
              = files (snd (merge_html_files file_paths output_path titles w2)) output_path)"
proof -
  define h where "h w = (case titles of
                           None \<Rightarrow> heap w
                         | Some r \<Rightarrow> (heap w)(r := padded_titles (length file_paths) (heap w r)))"
    for w :: world
  obtain a1 v1 where R1: "read_loop 0 file_paths [] (w1\<lparr>heap := h w1\<rparr>) = (a1, v1)"
    by (cases "read_loop 0 file_paths [] (w1\<lparr>heap := h w1\<rparr>)")
  obtain a2 v2 where R2: "read_loop 0 file_paths [] (w2\<lparr>heap := h w2\<rparr>) = (a2, v2)"
    by (cases "read_loop 0 file_paths [] (w2\<lparr>heap := h w2\<rparr>)")
  have "\<forall>p\<in>set file_paths. files (w1\<lparr>heap := h w1\<rparr>) p = files (w2\<lparr>heap := h w2\<rparr>) p"
    using assms(1) by simp
  from read_loop_cong[OF this, of 0 "[]"] R1 R2 have a: "a1 = a2" by simp
  have e: "effective_titles file_paths titles w1 = effective_titles file_paths titles w2"
    using assms(2) by (cases titles) (simp_all add: effective_titles_def initial_titles_def)
  show ?thesis
    unfolding merge_html_files_unfold h_def[symmetric] R1 R2 a e
    using assms(3) by (cases a2) (simp_all add: py_print_def)
qed

theorem compose_deterministic_witness:
  "fst (merge_html_files [''a.html'', ''gone.html''] ''out.html'' None world0) = Inr ()
   \<and> fst (merge_html_files [''a.html'', ''gone.html''] ''out.html'' None
            (snd (merge_html_files [''a.html'', ''gone.html''] ''out.html'' None world0))) = Inr ()
   \<and> files (snd (merge_html_files [''a.html'', ''gone.html''] ''out.html'' None world0)) ''out.html''
       = files (snd (merge_html_files [''a.html'', ''gone.html''] ''out.html'' None
                       (snd (merge_html_files [''a.html'', ''gone.html''] ''out.html'' None world0))))
           ''out.html''"
proof -
  have ok: "\<forall>p\<in>set [''a.html'', ''gone.html'']. files world0 p \<noteq> Unreadable"
    "writable world0 ''out.html''"
    by (simp_all add: world0_def)
  note m = merge_html_files_ok[OF ok, of None]
  have 1: "fst (merge_html_files [''a.html'', ''gone.html''] ''out.html'' None world0) = Inr ()"
    by (simp add: m)
  have 2: "\<forall>p\<in>set [''a.html'', ''gone.html''].
      files world0 p
        = files (snd (merge_html_files [''a.html'', ''gone.html''] ''out.html'' None world0)) p"
    by (simp add: m)
  have 3: "\<forall>r. (None :: nat option) = Some r \<longrightarrow>
      heap world0 r
        = heap (snd (merge_html_files [''a.html'', ''gone.html''] ''out.html'' None world0)) r"
    by simp
  have 4: "writable world0 ''out.html''
      = writable (snd (merge_html_files [''a.html'', ''gone.html''] ''out.html'' None world0))
          ''out.html''"
    by (simp add: m)
  from compose_deterministic[OF 2 3 4] 1 show ?thesis by simp
qed








end
